theory Spec2Isabelle
  imports Main "HOL-Library.AList" "HOL-Library.Sublist" "HOL-Library.List_Lexorder" "HOL-Library.Char_ord" "HOL-Library.Multiset"
begin

section \<open>Go library functions used by node-spark\<close>

text \<open>
  The functions of this section model the parts of the Go standard library that the
  repository calls (packages \<^verbatim>\<open>strings\<close>, \<^verbatim>\<open>strconv\<close>, \<^verbatim>\<open>sort\<close>). Go strings are
  byte strings; they are modelled as \<^typ>\<open>string\<close>.
\<close>

subsection \<open>Package strings\<close>

definition HasPrefix :: "string \<Rightarrow> string \<Rightarrow> bool" where
  "HasPrefix s p = prefix p s"

definition HasSuffix :: "string \<Rightarrow> string \<Rightarrow> bool" where
  "HasSuffix s p = suffix p s"

definition TrimPrefix :: "string \<Rightarrow> string \<Rightarrow> string" where
  "TrimPrefix s p = (if HasPrefix s p then drop (length p) s else s)"

definition TrimSuffix :: "string \<Rightarrow> string \<Rightarrow> string" where
  "TrimSuffix s p = (if HasSuffix s p then take (length s - length p) s else s)"

text \<open>\<^verbatim>\<open>strings.Split(s, sep)\<close> for a separator of one byte: always at least one field.\<close>

primrec Split :: "string \<Rightarrow> char \<Rightarrow> string list" where
  "Split [] c = [[]]"
| "Split (x # xs) c =
     (if x = c then [] # Split xs c
      else case Split xs c of [] \<Rightarrow> [[x]] | f # fs \<Rightarrow> (x # f) # fs)"

text \<open>\<^verbatim>\<open>strings.SplitN(s, sep, 2)\<close>: cut at the first separator only.\<close>

definition SplitN2 :: "string \<Rightarrow> char \<Rightarrow> string list" where
  "SplitN2 s c =
     (if c \<in> set s
      then [takeWhile (\<lambda>x. x \<noteq> c) s, tl (dropWhile (\<lambda>x. x \<noteq> c) s)]
      else [s])"

subsection \<open>Package strconv\<close>

definition is_digit :: "char \<Rightarrow> bool" where
  "is_digit c = (48 \<le> (of_char c :: nat) \<and> (of_char c :: nat) \<le> 57)"

definition digits_value :: "string \<Rightarrow> int" where
  "digits_value ds = foldl (\<lambda>n c. n * 10 + (int (of_char c) - 48)) 0 ds"

text \<open>
  \<^verbatim>\<open>strconv.Atoi\<close> on a platform with 64-bit \<^verbatim>\<open>int\<close>: an optional sign, then at least one
  decimal digit and nothing else; a value outside the range of \<^verbatim>\<open>int\<close> is an error.
  \<open>None\<close> stands for \<^verbatim>\<open>err != nil\<close>.
\<close>

definition Atoi :: "string \<Rightarrow> int option" where
  "Atoi s =
     (let neg = (s \<noteq> [] \<and> hd s = CHR ''-'');
          ds = (if s \<noteq> [] \<and> (hd s = CHR ''-'' \<or> hd s = CHR ''+'') then tl s else s);
          n = (if neg then - digits_value ds else digits_value ds)
      in if ds = [] \<or> \<not> list_all is_digit ds then None
         else if n < - (2 ^ 63) \<or> 2 ^ 63 - 1 < n then None
         else Some n)"

subsection \<open>Package sort\<close>

text \<open>
  \<^verbatim>\<open>sort.Slice(xs, less)\<close> promises a permutation of \<open>xs\<close> in which no element is
  less than an earlier one; the order of elements that the comparison does not separate is not
  specified. The model is an insertion sort; only the promised properties are used below.
\<close>

primrec insert_by :: "('a \<Rightarrow> 'a \<Rightarrow> bool) \<Rightarrow> 'a \<Rightarrow> 'a list \<Rightarrow> 'a list" where
  "insert_by lt x [] = [x]"
| "insert_by lt x (y # ys) =
     (if lt y x then y # insert_by lt x ys else x # y # ys)"

definition sort_Slice :: "('a \<Rightarrow> 'a \<Rightarrow> bool) \<Rightarrow> 'a list \<Rightarrow> 'a list" where
  "sort_Slice lt xs = foldr (insert_by lt) xs []"

section \<open>Release index client (internal/fetch.go)\<close>

datatype json_value = JNull | JBool bool | JString string | JNumber int

record NodeVersion =
  Version :: string
  Date :: string
  Files :: "string list"
  LTS :: json_value
  Modules :: json_value
  NPM :: string
  V8 :: string

datatype error =
    FetchError
  | ParseError
  | NotFoundError string
  | TransferError
  | UnsupportedFormatError string
  | NotInstalledError string
  | ActiveVersionError
  | NoActiveVersionError
  | HomeDirError
  | UnsupportedSystemError
  | VerificationError
  | IOError string

text \<open>
  The HTTP exchange and the JSON decoding are library calls; their outcome is an input
  of the model. \<open>Decoded\<close> carries the slice that either the strict or the lenient
  decoding of fetch.go (lines 71-122) produced.
\<close>

datatype index_response =
    RequestFailed
  | BadStatus nat
  | BodyUnreadable
  | EmptyBody
  | Malformed
  | Decoded "NodeVersion list"

text \<open>extractVersionNumbers, fetch.go lines 145-163.\<close>

primrec collect_numbers :: "string list \<Rightarrow> int list" where
  "collect_numbers [] = []"
| "collect_numbers (part # parts) =
     (case Atoi (hd (Split part CHR ''-'')) of
        Some num \<Rightarrow> num # collect_numbers parts
      | None \<Rightarrow> collect_numbers parts)"

definition extractVersionNumbers :: "string \<Rightarrow> int list" where
  "extractVersionNumbers version =
     collect_numbers (Split (TrimPrefix version ''v'') CHR ''.'')"

text \<open>The comparison closure of fetch.go lines 125-139; \<open>k\<close> is the loop index.\<close>

function compare_from :: "int list \<Rightarrow> int list \<Rightarrow> nat \<Rightarrow> bool" where
  "compare_from vNumI vNumJ k =
     (if k < length vNumI \<and> k < length vNumJ
      then (if vNumI ! k \<noteq> vNumJ ! k then vNumI ! k > vNumJ ! k
            else compare_from vNumI vNumJ (k + 1))
      else length vNumI > length vNumJ)"
  by pat_completeness auto
termination
  by (relation "measure (\<lambda>(vNumI, vNumJ, k). length vNumI - k)") auto

declare compare_from.simps [simp del]

definition version_less :: "NodeVersion \<Rightarrow> NodeVersion \<Rightarrow> bool" where
  "version_less a b =
     compare_from (extractVersionNumbers (Version a)) (extractVersionNumbers (Version b)) 0"

definition FetchAvailableVersions :: "index_response \<Rightarrow> error + NodeVersion list" where
  "FetchAvailableVersions resp =
     (case resp of
        RequestFailed \<Rightarrow> Inl FetchError
      | BadStatus code \<Rightarrow> Inl FetchError
      | BodyUnreadable \<Rightarrow> Inl FetchError
      | EmptyBody \<Rightarrow> Inl FetchError
      | Malformed \<Rightarrow> Inl ParseError
      | Decoded versions \<Rightarrow> Inr (sort_Slice version_less versions))"

text \<open>FetchVersionDetails, fetch.go lines 205-223.\<close>

primrec find_version :: "string \<Rightarrow> NodeVersion list \<Rightarrow> error + NodeVersion" where
  "find_version versionQuery [] = Inl (NotFoundError versionQuery)"
| "find_version versionQuery (v # vs) =
     (if Version v = versionQuery then Inr v else find_version versionQuery vs)"

definition standardize :: "string \<Rightarrow> string" where
  "standardize versionQuery =
     (if \<not> HasPrefix versionQuery ''v'' then ''v'' @ versionQuery else versionQuery)"

definition FetchVersionDetails :: "string \<Rightarrow> index_response \<Rightarrow> error + NodeVersion" where
  "FetchVersionDetails versionQuery resp =
     (case FetchAvailableVersions resp of
        Inl err \<Rightarrow> Inl err
      | Inr versions \<Rightarrow> find_version (standardize versionQuery) versions)"

text \<open>A small index used in the examples below.\<close>

definition index_example :: "NodeVersion list" where
  "index_example =
     [\<lparr>Version = ''v20.1.0'', Date = ''2023-04-18'', Files = [''linux-x64''],
        LTS = JBool False, Modules = JString ''115'', NPM = ''9.6.4'', V8 = ''11.3''\<rparr>,
      \<lparr>Version = ''v18.17.0'', Date = ''2023-07-18'', Files = [''linux-x64''],
        LTS = JString ''Hydrogen'', Modules = JString ''108'', NPM = ''9.6.7'', V8 = ''10.2''\<rparr>]"

section \<open>Package path/filepath\<close>

text \<open>
  The functions of \<^verbatim>\<open>path/filepath\<close> are modelled for a target whose separator is the
  slash (Linux, macOS), without volume names. \<^verbatim>\<open>filepath.Clean\<close> is given by its
  documented effect on the path elements: empty elements and \<^verbatim>\<open>.\<close> are dropped, \<^verbatim>\<open>..\<close>
  removes the element before it, is dropped at the root, and is kept at the start of a
  relative path.
\<close>

fun join_sep :: "string list \<Rightarrow> string" where
  "join_sep [] = []"
| "join_sep [x] = x"
| "join_sep (x # y # ys) = x @ ''/'' @ join_sep (y # ys)"

primrec clean_elems :: "bool \<Rightarrow> string list \<Rightarrow> string list \<Rightarrow> string list" where
  "clean_elems rooted out [] = out"
| "clean_elems rooted out (e # es) =
     (if e = [] \<or> e = ''.'' then clean_elems rooted out es
      else if e = ''..'' then
        (if out \<noteq> [] \<and> last out \<noteq> ''..'' then clean_elems rooted (butlast out) es
         else if \<not> rooted then clean_elems rooted (out @ [''..'']) es
         else clean_elems rooted out es)
      else clean_elems rooted (out @ [e]) es)"

definition filepath_Clean :: "string \<Rightarrow> string" where
  "filepath_Clean path =
     (if path = [] then ''.''
      else let rooted = (hd path = CHR ''/'');
               out = clean_elems rooted [] (Split path CHR ''/'')
           in if rooted then ''/'' @ join_sep out
              else if out = [] then ''.'' else join_sep out)"

text \<open>\<^verbatim>\<open>filepath.Join\<close>: leading empty elements are ignored, the rest is joined and cleaned.\<close>

definition filepath_Join :: "string list \<Rightarrow> string" where
  "filepath_Join elem =
     (let es = dropWhile (\<lambda>e. e = []) elem
      in if es = [] then [] else filepath_Clean (join_sep es))"

text \<open>\<^verbatim>\<open>filepath.Dir\<close>: everything up to the last separator, cleaned.\<close>

definition filepath_Dir :: "string \<Rightarrow> string" where
  "filepath_Dir path = filepath_Clean (rev (dropWhile (\<lambda>c. c \<noteq> CHR ''/'') (rev path)))"

text \<open>\<^verbatim>\<open>filepath.Ext\<close>: the suffix of the last element from its last dot on.\<close>

definition filepath_Ext :: "string \<Rightarrow> string" where
  "filepath_Ext path =
     (let name = rev (takeWhile (\<lambda>c. c \<noteq> CHR ''/'') (rev path))
      in if CHR ''.'' \<in> set name
         then CHR ''.'' # rev (takeWhile (\<lambda>c. c \<noteq> CHR ''.'') (rev name))
         else [])"

text \<open>The last element of a path (\<^verbatim>\<open>FileInfo.Name\<close> of the entry it names).\<close>

definition base_name :: "string \<Rightarrow> string" where
  "base_name path = rev (takeWhile (\<lambda>c. c \<noteq> CHR ''/'') (rev path))"

section \<open>The file system (package os)\<close>

text \<open>
  The file system is a finite table from cleaned paths to nodes. Paths are resolved
  lexically: a path names the node stored under its cleaned form, the root, the current
  directory and their \<^verbatim>\<open>..\<close> ancestors always exist as directories, and symbolic links
  are not followed. Permission bits are not tracked; instead \<open>denied\<close> lists the paths
  that the process may not create, overwrite or remove, so that every error return of
  a system call can occur.
\<close>

datatype node = Dir | File string | Symlink string

record world =
  nodes :: "(string \<times> node) list"
  denied :: "string list"

definition path_elems :: "string \<Rightarrow> bool \<times> string list" where
  "path_elems p =
     (let rooted = (p \<noteq> [] \<and> hd p = CHR ''/'')
      in (rooted, clean_elems rooted [] (Split p CHR ''/'')))"

definition render :: "bool \<Rightarrow> string list \<Rightarrow> string" where
  "render rooted es =
     (if rooted then ''/'' @ join_sep es else if es = [] then ''.'' else join_sep es)"

text \<open>\<open>under d q\<close>: the path \<open>q\<close> lies strictly inside the directory \<open>d\<close>.\<close>

definition under :: "string \<Rightarrow> string \<Rightarrow> bool" where
  "under d q =
     (let (rd, ed) = path_elems d; (rq, eq) = path_elems q
      in rd = rq \<and> strict_prefix ed eq \<and> ''..'' \<notin> set (drop (length ed) eq))"

definition lookup :: "world \<Rightarrow> string \<Rightarrow> node option" where
  "lookup w p =
     (let (r, es) = path_elems p
      in if list_all (\<lambda>e. e = ''..'') es then Some Dir
         else map_of (nodes w) (render r es))"

text \<open>\<^verbatim>\<open>os.Stat\<close> and \<^verbatim>\<open>os.Lstat\<close> succeed exactly on existing paths.\<close>

definition exists :: "world \<Rightarrow> string \<Rightarrow> bool" where
  "exists w p = (lookup w p \<noteq> None)"

definition is_denied :: "world \<Rightarrow> string \<Rightarrow> bool" where
  "is_denied w p = (filepath_Clean p \<in> set (denied w))"

definition put :: "string \<Rightarrow> node \<Rightarrow> world \<Rightarrow> world" where
  "put p n w = w\<lparr>nodes := AList.update (filepath_Clean p) n (nodes w)\<rparr>"

text \<open>The directories that \<^verbatim>\<open>os.MkdirAll\<close> visits, outermost first.\<close>

definition ancestors :: "string \<Rightarrow> string list" where
  "ancestors p = (let (r, es) = path_elems p in map (render r) (tl (prefixes es)))"

text \<open>
  Every call that changes the file system returns the error (if any) together with the file
  system it leaves behind.
\<close>

type_synonym 'a outcome = "error option \<times> 'a"

primrec mkdirs :: "string list \<Rightarrow> world \<Rightarrow> world outcome" where
  "mkdirs [] w = (None, w)"
| "mkdirs (q # qs) w =
     (case lookup w q of
        Some Dir \<Rightarrow> mkdirs qs w
      | Some (File d) \<Rightarrow> (Some (IOError q), w)
      | Some (Symlink t) \<Rightarrow> (Some (IOError q), w)
      | None \<Rightarrow> if is_denied w q then (Some (IOError q), w) else mkdirs qs (put q Dir w))"

definition MkdirAll :: "string \<Rightarrow> nat \<Rightarrow> world \<Rightarrow> world outcome" where
  "MkdirAll path perm w = mkdirs (ancestors path) w"

text \<open>
  \<^verbatim>\<open>os.OpenFile\<close> with \<^verbatim>\<open>O_CREATE\<close> followed by writing \<open>data\<close>: with \<^verbatim>\<open>O_TRUNC\<close> the
  old contents are discarded, without it the new bytes overwrite the start of the old
  contents and the rest stays.
\<close>

definition write_file :: "bool \<Rightarrow> string \<Rightarrow> string \<Rightarrow> world \<Rightarrow> world outcome" where
  "write_file trunc path data w =
     (if lookup w (filepath_Dir path) \<noteq> Some Dir \<or> is_denied w path
      then (Some (IOError path), w)
      else case lookup w path of
        None \<Rightarrow> (None, put path (File data) w)
      | Some (File old) \<Rightarrow>
          (None, put path (File (if trunc then data else data @ drop (length data) old)) w)
      | Some Dir \<Rightarrow> (Some (IOError path), w)
      | Some (Symlink t) \<Rightarrow> (Some (IOError path), w))"

definition WriteFile :: "string \<Rightarrow> string \<Rightarrow> nat \<Rightarrow> world \<Rightarrow> world outcome" where
  "WriteFile name data perm w = write_file True name data w"

definition ReadFile :: "string \<Rightarrow> world \<Rightarrow> error + string" where
  "ReadFile name w = (case lookup w name of Some (File d) \<Rightarrow> Inr d | _ \<Rightarrow> Inl (IOError name))"

definition Symlink_os :: "string \<Rightarrow> string \<Rightarrow> world \<Rightarrow> world outcome" where
  "Symlink_os oldname newname w =
     (if exists w newname \<or> lookup w (filepath_Dir newname) \<noteq> Some Dir \<or> is_denied w newname
      then (Some (IOError newname), w)
      else (None, put newname (Symlink oldname) w))"

definition has_children :: "world \<Rightarrow> string \<Rightarrow> bool" where
  "has_children w p = list_ex (\<lambda>(q, n). under p q) (nodes w)"

definition Remove :: "string \<Rightarrow> world \<Rightarrow> world outcome" where
  "Remove name w =
     (if map_of (nodes w) (filepath_Clean name) = None \<or> is_denied w name
         \<or> (map_of (nodes w) (filepath_Clean name) = Some Dir \<and> has_children w name)
      then (Some (IOError name), w)
      else (None, w\<lparr>nodes := AList.delete (filepath_Clean name) (nodes w)\<rparr>))"

text \<open>\<^verbatim>\<open>os.RemoveAll\<close>: the path and everything inside it; no error if it is absent.\<close>

definition doomed :: "string \<Rightarrow> string \<Rightarrow> bool" where
  "doomed path q = (q = filepath_Clean path \<or> under path q)"

definition RemoveAll :: "string \<Rightarrow> world \<Rightarrow> world outcome" where
  "RemoveAll path w =
     (if list_ex (\<lambda>(q, n). doomed path q \<and> q \<in> set (denied w)) (nodes w)
      then (Some (IOError path), w)
      else (None, w\<lparr>nodes := filter (\<lambda>(q, n). \<not> doomed path q) (nodes w)\<rparr>))"

text \<open>
  \<^verbatim>\<open>filepath.Walk\<close> visits a directory's entries in the order of their names, depth first.
  \<open>walk_find\<close> is the first visited entry that is not a directory and has the given
  name, as the callbacks of this repository look for.
\<close>

definition walk_first :: "string list \<Rightarrow> string" where
  "walk_first qs =
     foldr (\<lambda>q m. if snd (path_elems q) \<le> snd (path_elems m) then q else m) (butlast qs) (last qs)"

definition walk_find :: "world \<Rightarrow> string \<Rightarrow> string \<Rightarrow> string option" where
  "walk_find w root name =
     (let cands = filter (\<lambda>q. (q = filepath_Clean root \<or> under root q) \<and> base_name q = name
                            \<and> lookup w q \<noteq> None \<and> lookup w q \<noteq> Some Dir)
                    (map fst (nodes w))
      in if cands = [] then None else Some (walk_first cands))"

section \<open>Archive unpacker (internal/extract.go)\<close>

text \<open>
  Decompression and the archive readers are library code: an archive is given by the
  entries its reader yields. \<open>BodyOk = False\<close> means that copying the entry's bytes fails
  after \<open>Body\<close> has been copied; \<open>truncated\<close> means that the tar reader ends with an error
  instead of the end of the archive.
\<close>

datatype typeflag = TypeReg | TypeDir | TypeSymlink | TypeOther char

record tar_header =
  Name :: string
  Typeflag :: typeflag
  Mode :: nat
  Linkname :: string
  Body :: string
  BodyOk :: bool

datatype zip_content = Content string | OpenFails | CopyFails string

record zip_file =
  zip_Name :: string
  zip_IsDir :: bool
  zip_Mode :: nat
  zip_Data :: zip_content

datatype archive = NotAnArchive | TarGz "tar_header list" bool | Zip "zip_file list"

text \<open>What the unpacker prints.\<close>

datatype event =
    Warn_symlink_failed string string
  | Skip_symlink_windows string string
  | Unsupported_entry string
  | Detected_top_level string
  | Warn_unsafe_path string
  | Found_node_exe string
  | Warn_copy_node_exe
  | Warn_node_exe_missing

type_synonym extraction = "error option \<times> world \<times> event list"

text \<open>The loop of extractTarGz, extract.go lines 45-100.\<close>

fun tar_loop :: "string \<Rightarrow> string \<Rightarrow> tar_header list \<Rightarrow> bool \<Rightarrow> world \<Rightarrow> event list
    \<Rightarrow> extraction" where
  "tar_loop goos destPath [] truncated w log =
     (if truncated then Some (IOError ''tar'') else None, w, log)"
| "tar_loop goos destPath (header # rest) truncated w log =
     (let parts = SplitN2 (Name header) CHR ''/''
      in if length parts < 2 then tar_loop goos destPath rest truncated w log
         else let target = filepath_Join [destPath, parts ! 1]
           in case Typeflag header of
             TypeDir \<Rightarrow>
               (case MkdirAll target (Mode header) w of
                  (Some err, w1) \<Rightarrow> (Some err, w1, log)
                | (None, w1) \<Rightarrow> tar_loop goos destPath rest truncated w1 log)
           | TypeReg \<Rightarrow>
               (case MkdirAll (filepath_Dir target) 493 w of
                  (Some err, w1) \<Rightarrow> (Some err, w1, log)
                | (None, w1) \<Rightarrow>
                    (case write_file False target (Body header) w1 of
                       (Some err, w2) \<Rightarrow> (Some err, w2, log)
                     | (None, w2) \<Rightarrow>
                         if \<not> BodyOk header then (Some (IOError target), w2, log)
                         else tar_loop goos destPath rest truncated w2 log))
           | TypeSymlink \<Rightarrow>
               (case MkdirAll (filepath_Dir target) 493 w of
                  (Some err, w1) \<Rightarrow> (Some err, w1, log)
                | (None, w1) \<Rightarrow>
                    if goos \<noteq> ''windows'' then
                      (case Symlink_os (Linkname header) target w1 of
                         (Some err, w2) \<Rightarrow>
                           tar_loop goos destPath rest truncated w2
                             (log @ [Warn_symlink_failed target (Linkname header)])
                       | (None, w2) \<Rightarrow> tar_loop goos destPath rest truncated w2 log)
                    else tar_loop goos destPath rest truncated w1
                           (log @ [Skip_symlink_windows target (Linkname header)]))
           | TypeOther c \<Rightarrow>
               tar_loop goos destPath rest truncated w (log @ [Unsupported_entry (Name header)]))"

definition extractTarGz :: "string \<Rightarrow> tar_header list \<Rightarrow> bool \<Rightarrow> string \<Rightarrow> world
    \<Rightarrow> extraction" where
  "extractTarGz goos entries truncated destPath w = tar_loop goos destPath entries truncated w []"

text \<open>extractZip, extract.go lines 106-235: the top-level directory, then the loop.\<close>

definition topLevelDir_of :: "zip_file list \<Rightarrow> string" where
  "topLevelDir_of files =
     (case files of [] \<Rightarrow> [] | file # rest \<Rightarrow> hd (Split (zip_Name file) CHR ''/''))"

definition zip_target :: "string \<Rightarrow> string \<Rightarrow> string \<Rightarrow> string" where
  "zip_target topLevelDir destPath normalizedPath =
     (if HasPrefix normalizedPath topLevelDir
      then filepath_Join [destPath,
             TrimPrefix (TrimPrefix (TrimPrefix normalizedPath topLevelDir) ''/'') ''/'']
      else filepath_Join [destPath, normalizedPath])"

fun zip_loop :: "string \<Rightarrow> string \<Rightarrow> zip_file list \<Rightarrow> world \<Rightarrow> event list \<Rightarrow> extraction" where
  "zip_loop topLevelDir destPath [] w log = (None, w, log)"
| "zip_loop topLevelDir destPath (file # rest) w log =
     (let normalizedPath = zip_Name file
      in if normalizedPath = topLevelDir @ ''/'' \<or> normalizedPath = topLevelDir
         then zip_loop topLevelDir destPath rest w log
         else let cleanedTarget = filepath_Clean (zip_target topLevelDir destPath normalizedPath)
           in if \<not> HasPrefix cleanedTarget (filepath_Clean destPath)
              then zip_loop topLevelDir destPath rest w (log @ [Warn_unsafe_path (zip_Name file)])
              else if zip_IsDir file then
                (case MkdirAll cleanedTarget (zip_Mode file) w of
                   (Some err, w1) \<Rightarrow> (Some err, w1, log)
                 | (None, w1) \<Rightarrow> zip_loop topLevelDir destPath rest w1 log)
              else
                (case MkdirAll (filepath_Dir cleanedTarget) 493 w of
                   (Some err, w1) \<Rightarrow> (Some err, w1, log)
                 | (None, w1) \<Rightarrow>
                     if HasSuffix cleanedTarget ''/''
                     then zip_loop topLevelDir destPath rest w1 log
                     else
                       (case zip_Data file of
                          Content data \<Rightarrow>
                            (case write_file True cleanedTarget data w1 of
                               (Some err, w2) \<Rightarrow> (Some err, w2, log)
                             | (None, w2) \<Rightarrow> zip_loop topLevelDir destPath rest w2 log)
                        | OpenFails \<Rightarrow>
                            (case write_file True cleanedTarget [] w1 of
                               (Some err, w2) \<Rightarrow> (Some err, w2, log)
                             | (None, w2) \<Rightarrow> (Some (IOError (zip_Name file)), w2, log))
                        | CopyFails data \<Rightarrow>
                            (case write_file True cleanedTarget data w1 of
                               (Some err, w2) \<Rightarrow> (Some err, w2, log)
                             | (None, w2) \<Rightarrow> (Some (IOError (zip_Name file)), w2, log)))))"

text \<open>The repair step for Windows after the loop, extract.go lines 201-232.\<close>

definition repair_node_exe :: "string \<Rightarrow> world \<Rightarrow> event list \<Rightarrow> extraction" where
  "repair_node_exe destPath w log =
     (let nodePath = filepath_Join [destPath, ''node.exe'']
      in if exists w nodePath then (None, w, log)
         else case walk_find w destPath ''node.exe'' of
           None \<Rightarrow> (None, w, log @ [Warn_node_exe_missing])
         | Some nodeExePath \<Rightarrow>
             (case ReadFile nodeExePath w of
                Inl err \<Rightarrow> (None, w, log @ [Found_node_exe nodeExePath])
              | Inr data \<Rightarrow>
                  (case WriteFile nodePath data 493 w of
                     (Some err, w1) \<Rightarrow>
                       (None, w1, log @ [Found_node_exe nodeExePath, Warn_copy_node_exe])
                   | (None, w1) \<Rightarrow> (None, w1, log @ [Found_node_exe nodeExePath]))))"

definition extractZip :: "string \<Rightarrow> zip_file list \<Rightarrow> string \<Rightarrow> world \<Rightarrow> extraction" where
  "extractZip goos files destPath w =
     (let topLevelDir = topLevelDir_of files
      in if topLevelDir = [] then (Some (IOError ''no files found in archive''), w, [])
         else case zip_loop topLevelDir destPath files w [Detected_top_level topLevelDir] of
           (Some err, w1, log) \<Rightarrow> (Some err, w1, log)
         | (None, w1, log) \<Rightarrow>
             if goos = ''windows'' then repair_node_exe destPath w1 log else (None, w1, log))"

text \<open>
  ExtractArchive, extract.go lines 17-27. \<open>opened\<close> is what opening and decoding the file
  at \<open>archivePath\<close> yields.
\<close>

definition ExtractArchive :: "string \<Rightarrow> archive \<Rightarrow> string \<Rightarrow> string \<Rightarrow> world \<Rightarrow> extraction" where
  "ExtractArchive goos opened archivePath destPath w =
     (let ext = filepath_Ext archivePath
      in if ext = ''.gz'' \<and> HasSuffix (TrimSuffix archivePath ext) ''.tar'' then
           (case opened of
              TarGz entries truncated \<Rightarrow> extractTarGz goos entries truncated destPath w
            | _ \<Rightarrow> (Some (IOError archivePath), w, []))
         else if ext = ''.zip'' then
           (case opened of
              Zip files \<Rightarrow> extractZip goos files destPath w
            | _ \<Rightarrow> (Some (IOError archivePath), w, []))
         else (Some (UnsupportedFormatError ext), w, []))"

section \<open>Configuration and environment (pkg/config.go)\<close>

record Config =
  InstallPath :: string
  InstalledVersions :: "string list"
  ActiveVersion :: string

definition GetInstallPath :: "Config \<Rightarrow> string" where
  "GetInstallPath config = InstallPath config"

text \<open>
  What the process reads from outside the configuration and the file system: the target
  (\<^verbatim>\<open>runtime.GOOS\<close>, \<^verbatim>\<open>runtime.GOARCH\<close>), the home and temporary directories, the answer of
  the network to a download, the decoding of archive bytes, whether an installed binary
  runs, the user's answer to the prompt of the installer, and the order in which Go
  iterates over the map of shim names.
\<close>

datatype http_result = TransportError | HttpStatus nat | HttpBody string bool

record env =
  goos :: string
  goarch :: string
  homeDir :: "string option"
  tempDir :: string
  http_get :: "string \<Rightarrow> http_result"
  decode :: "string \<Rightarrow> archive"
  node_runs :: "string \<Rightarrow> bool"
  response :: string
  shim_order :: "string list"

type_synonym state = "Config \<times> world"

section \<open>Windows shims (internal/windows.go)\<close>

definition shim_template :: "string \<Rightarrow> string" where
  "shim_template target =
     ''@echo off'' @ [CHR 0x0D, CHR 0x0A, CHR 0x22] @ target @ [CHR 0x22] @ '' %*''"

definition errorShim :: string where
  "errorShim = ''@echo off'' @ [CHR 0x0D, CHR 0x0A]
     @ ''echo Node.js executable could not be found. Please reinstall this version.''
     @ [CHR 0x0D, CHR 0x0A] @ ''exit /b 1''"

text \<open>Lines 26-57 of windows.go: where node.exe is looked for.\<close>

definition locate_nodeBinPath :: "world \<Rightarrow> string \<Rightarrow> string" where
  "locate_nodeBinPath w nodeBinPath =
     (if exists w (filepath_Join [nodeBinPath, ''node.exe'']) then nodeBinPath
      else let binDir = filepath_Join [nodeBinPath, ''bin'']
        in if exists w (filepath_Join [binDir, ''node.exe'']) then binDir
           else case walk_find w nodeBinPath ''node.exe'' of
                  Some nodeExePath \<Rightarrow> filepath_Dir nodeExePath
                | None \<Rightarrow> nodeBinPath)"

text \<open>The search for an alternative of npm.cmd or npx.cmd, windows.go lines 72-81.\<close>

primrec first_existing :: "world \<Rightarrow> string \<Rightarrow> string list \<Rightarrow> string option" where
  "first_existing w nodeBinPath [] = None"
| "first_existing w nodeBinPath (alt # alts) =
     (if exists w (filepath_Join [nodeBinPath, alt]) then Some (filepath_Join [nodeBinPath, alt])
      else first_existing w nodeBinPath alts)"

text \<open>The loop over the shim names, windows.go lines 60-103.\<close>

primrec shim_loop :: "string \<Rightarrow> string \<Rightarrow> string list \<Rightarrow> world \<Rightarrow> world outcome" where
  "shim_loop nodeBinPath shimDir [] w = (None, w)"
| "shim_loop nodeBinPath shimDir (binary # rest) w =
     (let sourcePath = filepath_Join [nodeBinPath, binary]
      in if \<not> exists w sourcePath then
           (if binary = ''npm.cmd'' \<or> binary = ''npx.cmd'' then
              (let baseName = TrimSuffix binary ''.cmd''
               in case first_existing w nodeBinPath [baseName, baseName @ ''.bat'', baseName] of
                    Some foundPath \<Rightarrow>
                      (case WriteFile (filepath_Join [shimDir, binary]) (shim_template foundPath) 493 w of
                         (Some err, w1) \<Rightarrow> (Some err, w1)
                       | (None, w1) \<Rightarrow> shim_loop nodeBinPath shimDir rest w1)
                  | None \<Rightarrow> shim_loop nodeBinPath shimDir rest w)
            else shim_loop nodeBinPath shimDir rest w)
         else
           (case WriteFile (filepath_Join [shimDir, binary]) (shim_template sourcePath) 493 w of
              (Some err, w1) \<Rightarrow> (Some err, w1)
            | (None, w1) \<Rightarrow> shim_loop nodeBinPath shimDir rest w1))"

definition CreateWindowsShims :: "string list \<Rightarrow> string \<Rightarrow> string \<Rightarrow> world \<Rightarrow> world outcome" where
  "CreateWindowsShims order nodeBinPath shimDir w =
     (case MkdirAll shimDir 493 w of
        (Some err, w1) \<Rightarrow> (Some err, w1)
      | (None, w1) \<Rightarrow>
          (case shim_loop (locate_nodeBinPath w1 nodeBinPath) shimDir order w1 of
             (Some err, w2) \<Rightarrow> (Some err, w2)
           | (None, w2) \<Rightarrow>
               (let nodeShimPath = filepath_Join [shimDir, ''node.exe'']
                in if \<not> exists w2 nodeShimPath then WriteFile nodeShimPath errorShim 493 w2
                   else (None, w2))))"

text \<open>
  CreateWindowsActivationScript, windows.go lines 159-224. The script is a fixed text with
  the version and the shim directory inserted; only the first line of each fixed part
  is kept here.
\<close>

definition activation_script :: "string \<Rightarrow> string \<Rightarrow> string" where
  "activation_script shimDir version =
     ''# Node.js activation script for Windows: use Node.js '' @ version
     @ '' $shimDir = '' @ shimDir
     @ '' nsk uninstall '' @ version @ '' nsk install '' @ version @ '' nsk use '' @ version"

definition CreateWindowsActivationScript :: "string \<Rightarrow> string \<Rightarrow> world \<Rightarrow> world outcome" where
  "CreateWindowsActivationScript shimDir version w =
     WriteFile (filepath_Join [shimDir, ''activate.ps1'']) (activation_script shimDir version) 493 w"

section \<open>Activation (internal/use.go)\<close>

text \<open>
  useVersionWindows, lines 287-336. UpdateWindowsPath runs PowerShell, always returns nil
  and touches neither the configuration nor the file system; the failure of the
  activation script is only printed.
\<close>

definition useVersionWindows :: "env \<Rightarrow> string \<Rightarrow> string \<Rightarrow> state \<Rightarrow> state outcome" where
  "useVersionWindows e version versionPath s =
     (case homeDir e of
        None \<Rightarrow> (Some HomeDirError, s)
      | Some home \<Rightarrow>
          (let (config, w) = s;
               nodeBinPath = (if exists w (filepath_Join [versionPath, ''bin''])
                              then filepath_Join [versionPath, ''bin''] else versionPath);
               shimDir = filepath_Join [home, ''.node-spark'', ''shims'']
           in case CreateWindowsShims (shim_order e) nodeBinPath shimDir w of
                (Some err, w1) \<Rightarrow> (Some err, (config, w1))
              | (None, w1) \<Rightarrow>
                  (let w2 = snd (CreateWindowsActivationScript shimDir version w1)
                   in (None, (config\<lparr>ActiveVersion := version\<rparr>, w2)))))"

text \<open>useVersionPosix, lines 340-376.\<close>

definition useVersionPosix :: "env \<Rightarrow> string \<Rightarrow> string \<Rightarrow> state \<Rightarrow> state outcome" where
  "useVersionPosix e version versionPath s =
     (case homeDir e of
        None \<Rightarrow> (Some HomeDirError, s)
      | Some home \<Rightarrow>
          (let (config, w) = s;
               symlinkDir = filepath_Join [home, ''.node-spark'', ''current'']
           in case MkdirAll (filepath_Dir symlinkDir) 493 w of
                (Some err, w1) \<Rightarrow> (Some err, (config, w1))
              | (None, w1) \<Rightarrow>
                  (case (if exists w1 symlinkDir then Remove symlinkDir w1 else (None, w1)) of
                     (Some err, w2) \<Rightarrow> (Some err, (config, w2))
                   | (None, w2) \<Rightarrow>
                       (case Symlink_os versionPath symlinkDir w2 of
                          (Some err, w3) \<Rightarrow> (Some err, (config, w3))
                        | (None, w3) \<Rightarrow> (None, (config\<lparr>ActiveVersion := version\<rparr>, w3))))))"

text \<open>UseVersion, lines 268-283.\<close>

definition UseVersion :: "env \<Rightarrow> string \<Rightarrow> state \<Rightarrow> state outcome" where
  "UseVersion e version s =
     (let versionPath = filepath_Join [GetInstallPath (fst s), version]
      in if \<not> exists (snd s) versionPath then (Some (NotInstalledError version), s)
         else if goos e = ''windows'' then useVersionWindows e version versionPath s
         else useVersionPosix e version versionPath s)"

text \<open>SetActiveVersion, lines 434-449.\<close>

definition SetActiveVersion :: "env \<Rightarrow> string \<Rightarrow> state \<Rightarrow> state outcome" where
  "SetActiveVersion e version s =
     (let versionPath = filepath_Join [GetInstallPath (fst s), version]
      in if \<not> exists (snd s) versionPath then (Some (NotInstalledError version), s)
         else case UseVersion e version s of
                (Some err, s1) \<Rightarrow> (Some err, s1)
              | (None, (config, w)) \<Rightarrow> (None, (config\<lparr>ActiveVersion := version\<rparr>, w)))"

text \<open>GetActiveVersion, lines 452-457.\<close>

definition GetActiveVersion :: "Config \<Rightarrow> error + string" where
  "GetActiveVersion config =
     (if ActiveVersion config = [] then Inl NoActiveVersionError else Inr (ActiveVersion config))"

text \<open>UninstallVersion, lines 465-496; \<open>remove_version\<close> is its loop over the slice.\<close>

primrec remove_version :: "string \<Rightarrow> string list \<Rightarrow> string list" where
  "remove_version version [] = []"
| "remove_version version (v # vs) =
     (if v = version then vs else v # remove_version version vs)"

definition UninstallVersion :: "string \<Rightarrow> state \<Rightarrow> state outcome" where
  "UninstallVersion version s =
     (let (config, w) = s
      in if ActiveVersion config = version then (Some ActiveVersionError, s)
         else let versionPath = filepath_Join [GetInstallPath config, version]
           in if \<not> exists w versionPath then (Some (NotInstalledError version), s)
              else case RemoveAll versionPath w of
                     (Some err, w1) \<Rightarrow> (Some err, (config, w1))
                   | (None, w1) \<Rightarrow>
                       (None, (config\<lparr>InstalledVersions :=
                                 remove_version version (InstalledVersions config)\<rparr>, w1)))"

section \<open>Download (internal/fetch.go, DownloadFile)\<close>

text \<open>
  DownloadFile, fetch.go lines 226-268. \<open>HttpBody data complete\<close> is an answer with status
  200 whose body yields \<open>data\<close> and then ends (\<open>complete\<close>) or fails. \<^verbatim>\<open>os.Create\<close> makes the
  file empty before the first byte is copied.
\<close>

definition DownloadFile :: "env \<Rightarrow> string \<Rightarrow> string \<Rightarrow> world \<Rightarrow> world outcome" where
  "DownloadFile e filepath url w =
     (case http_get e url of
        TransportError \<Rightarrow> (Some TransferError, w)
      | HttpStatus code \<Rightarrow> (Some TransferError, w)
      | HttpBody data complete \<Rightarrow>
          (case write_file True filepath [] w of
             (Some err, w1) \<Rightarrow> (Some err, w1)
           | (None, w1) \<Rightarrow>
               (if complete then None else Some TransferError, put filepath (File data) w1)))"

section \<open>Installation (InstallNodeVersion)\<close>

text \<open>detectSystemInfo: on Windows the detected values are only printed, x86 is always used.\<close>

definition detectSystemInfo :: "env \<Rightarrow> error + (string \<times> string \<times> string)" where
  "detectSystemInfo e =
     (if goos e \<noteq> ''linux'' \<and> goos e \<noteq> ''darwin'' \<and> goos e \<noteq> ''windows''
      then Inl UnsupportedSystemError
      else let nodeOS = (if goos e = ''windows'' then ''win'' else goos e);
               ext = (if goos e = ''windows'' then ''zip'' else ''tar.gz'')
        in if goos e = ''windows'' then Inr (''x86'', nodeOS, ext)
           else if goarch e = ''amd64'' then Inr (''x64'', nodeOS, ext)
           else if goarch e = ''386'' then Inr (''x86'', nodeOS, ext)
           else if goarch e = ''arm64'' then Inr (''arm64'', nodeOS, ext)
           else if goarch e = ''arm'' then Inr (''armv7l'', nodeOS, ext)
           else Inl UnsupportedSystemError)"

definition archive_filename :: "string \<Rightarrow> string \<Rightarrow> string \<Rightarrow> string \<Rightarrow> string" where
  "archive_filename versionStr nodeOS nodeArch ext =
     ''node-'' @ versionStr @ ''-'' @ nodeOS @ ''-'' @ nodeArch @ ''.'' @ ext"

definition download_url :: "string \<Rightarrow> string \<Rightarrow> string" where
  "download_url versionStr filename = ''https://nodejs.org/dist/'' @ versionStr @ ''/'' @ filename"

definition to_lower :: "char \<Rightarrow> char" where
  "to_lower c = (if CHR ''A'' \<le> c \<and> c \<le> CHR ''Z'' then char_of (of_char c + (32::nat)) else c)"

definition ToLower :: "string \<Rightarrow> string" where
  "ToLower s = map to_lower s"

text \<open>Steps 4 (download, with the retry on Windows) of InstallNodeVersion.\<close>

definition download_archive :: "env \<Rightarrow> string \<Rightarrow> string \<Rightarrow> string \<Rightarrow> string \<Rightarrow> world
    \<Rightarrow> error option \<times> string \<times> world" where
  "download_archive e versionStr nodeOS nodeArch ext w =
     (let filename = archive_filename versionStr nodeOS nodeArch ext;
          archivePath = filepath_Join [tempDir e, filename]
      in case DownloadFile e archivePath (download_url versionStr filename) w of
           (None, w1) \<Rightarrow> (None, archivePath, w1)
         | (Some err, w1) \<Rightarrow>
             if goos e = ''windows'' \<and> nodeArch = ''x64'' then
               (let filename2 = archive_filename versionStr nodeOS ''x86'' ext;
                    archivePath2 = filepath_Join [tempDir e, filename2]
                in case DownloadFile e archivePath2 (download_url versionStr filename2) w1 of
                     (err2, w2) \<Rightarrow> (err2, archivePath2, w2))
             else (Some err, archivePath, w1))"

text \<open>Steps 5 to 7 and the prompt: everything that runs under the deferred removal.\<close>

definition install_extracted :: "env \<Rightarrow> string \<Rightarrow> string \<Rightarrow> string \<Rightarrow> state \<Rightarrow> state outcome" where
  "install_extracted e version versionDir archivePath s =
     (let (config, w) = s;
          cleanVersion = TrimPrefix version ''v'';
          opened = (case lookup w archivePath of Some (File d) \<Rightarrow> decode e d | _ \<Rightarrow> NotAnArchive)
      in case ExtractArchive (goos e) opened archivePath versionDir w of
           (Some err, w1, log) \<Rightarrow> (Some err, (config, w1))
         | (None, w1, log) \<Rightarrow>
             (let nodePath = (if exists w1 (filepath_Join [versionDir, ''node.exe''])
                              then filepath_Join [versionDir, ''node.exe'']
                              else filepath_Join [versionDir, ''bin'', ''node.exe''])
              in if goos e = ''windows'' \<and> \<not> exists w1 nodePath then (Some VerificationError, (config, w1))
                 else if goos e = ''windows'' \<and> \<not> node_runs e nodePath
                   then (Some VerificationError, (config, w1))
                 else
                   (let config1 = (if cleanVersion \<in> set (InstalledVersions config) then config
                                   else config\<lparr>InstalledVersions := InstalledVersions config @ [cleanVersion]\<rparr>)
                    in if ActiveVersion config1 = [] \<and>
                          ToLower (response e) \<in> {[], ''y'', ''yes''}
                       then (None, snd (SetActiveVersion e version (config1, w1)))
                       else (None, (config1, w1)))))"

text \<open>
  InstallNodeVersion. The removal of the archive is deferred in the line after the
  return on a failed download, so it runs on every return below that line and on none
  above it.
\<close>

definition InstallNodeVersion :: "env \<Rightarrow> string \<Rightarrow> state \<Rightarrow> state outcome" where
  "InstallNodeVersion e version s =
     (let (config, w) = s;
          cleanVersion = TrimPrefix version ''v''
      in if cleanVersion \<in> set (InstalledVersions config) then (None, s)
         else let installPath = GetInstallPath config;
                  versionDir = filepath_Join [installPath, version]
           in case MkdirAll installPath 493 w of
                (Some err, w1) \<Rightarrow> (Some err, (config, w1))
              | (None, w1) \<Rightarrow>
                 (case MkdirAll versionDir 493 w1 of
                    (Some err, w2) \<Rightarrow> (Some err, (config, w2))
                  | (None, w2) \<Rightarrow>
                     (let versionStr = (if HasPrefix version ''v'' then version else ''v'' @ version)
                      in case detectSystemInfo e of
                           Inl err \<Rightarrow> (Some err, (config, w2))
                         | Inr (nodeArch, nodeOS, ext) \<Rightarrow>
                            (case download_archive e versionStr nodeOS nodeArch ext w2 of
                               (Some err, archivePath, w3) \<Rightarrow> (Some err, (config, w3))
                             | (None, archivePath, w3) \<Rightarrow>
                                (case install_extracted e version versionDir archivePath (config, w3) of
                                   (err, (config1, w4)) \<Rightarrow>
                                     (err, (config1, snd (Remove archivePath w4))))))))"

text \<open>InstallVersion, the entry point.\<close>

definition InstallVersion :: "env \<Rightarrow> string \<Rightarrow> state \<Rightarrow> state outcome" where
  "InstallVersion e version s = InstallNodeVersion e version s"

section \<open>Example data\<close>

definition node_tarball :: archive where
  "node_tarball = TarGz
     [\<lparr>Name = ''node-v18.17.0-linux-x64/'', Typeflag = TypeDir, Mode = 493, Linkname = [],
        Body = [], BodyOk = True\<rparr>,
      \<lparr>Name = ''node-v18.17.0-linux-x64/bin/'', Typeflag = TypeDir, Mode = 493, Linkname = [],
        Body = [], BodyOk = True\<rparr>,
      \<lparr>Name = ''node-v18.17.0-linux-x64/bin/node'', Typeflag = TypeReg, Mode = 493, Linkname = [],
        Body = ''ELF'', BodyOk = True\<rparr>] False"

definition linux_env :: env where
  "linux_env = \<lparr>goos = ''linux'', goarch = ''amd64'', homeDir = Some ''/home/u'', tempDir = ''/tmp'',
     http_get = (\<lambda>url. if url = ''https://nodejs.org/dist/v18.17.0/node-v18.17.0-linux-x64.tar.gz''
                        then HttpBody ''TGZ'' True else HttpStatus 404),
     decode = (\<lambda>d. if d = ''TGZ'' then node_tarball else NotAnArchive),
     node_runs = (\<lambda>p. True), response = ''y'',
     shim_order = [''node.exe'', ''npm.cmd'', ''npx.cmd'']\<rparr>"

text \<open>The same machine on a connection that breaks after the first two bytes of the body.\<close>

definition flaky_env :: env where
  "flaky_env = linux_env\<lparr>http_get := (\<lambda>url. HttpBody ''TG'' False)\<rparr>"

definition fresh_world :: world where
  "fresh_world = \<lparr>nodes = [(''/home'', Dir), (''/home/u'', Dir), (''/tmp'', Dir)], denied = []\<rparr>"

definition fresh_config :: Config where
  "fresh_config = \<lparr>InstallPath = ''/home/u/.node-spark/versions'', InstalledVersions = [],
                    ActiveVersion = []\<rparr>"

text \<open>A version directory as the installer creates it, and archives with crafted entries.\<close>

definition version_dir :: string where
  "version_dir = ''/home/u/.node-spark/versions/18.17.0''"

definition installed_world :: world where
  "installed_world = snd (MkdirAll version_dir 493 fresh_world)"

definition evil_tar_entries :: "tar_header list" where
  "evil_tar_entries =
     [\<lparr>Name = ''root/'', Typeflag = TypeDir, Mode = 493, Linkname = [], Body = [], BodyOk = True\<rparr>,
      \<lparr>Name = ''root/../../evil.txt'', Typeflag = TypeReg, Mode = 420, Linkname = [],
        Body = ''evil'', BodyOk = True\<rparr>]"

definition evil_zip_files :: "zip_file list" where
  "evil_zip_files =
     [\<lparr>zip_Name = ''root/'', zip_IsDir = True, zip_Mode = 493, zip_Data = Content []\<rparr>,
      \<lparr>zip_Name = ''root/../18.17.0-evil/x.txt'', zip_IsDir = False, zip_Mode = 420,
        zip_Data = Content ''evil''\<rparr>]"

section \<open>Properties of the release index client\<close>

lemma Split_nonempty: "Split s c \<noteq> []"
  by (induction s) (auto split: list.splits)





lemma insert_by_mset: "mset (insert_by lt x ys) = add_mset x (mset ys)"
  by (induction ys) auto

lemma sort_Slice_mset: "mset (sort_Slice lt xs) = mset xs"
  by (induction xs) (auto simp: sort_Slice_def insert_by_mset)





lemma find_version_Inl:
  "find_version q vs = Inl e \<Longrightarrow> e = NotFoundError q \<and> q \<notin> Version ` set vs"
  by (induction vs) (auto split: if_splits)

lemma find_version_Inr:
  "find_version q vs = Inr d \<Longrightarrow>
     \<exists>pre post. vs = pre @ d # post \<and> Version d = q \<and> q \<notin> Version ` set pre"
proof (induction vs)
  case Nil
  then show ?case by simp
next
  case (Cons v vs)
  show ?case
  proof (cases "Version v = q")
    case True
    with Cons.prems have "d = v" by simp
    with True have "v # vs = [] @ d # vs \<and> Version d = q \<and> q \<notin> Version ` set []" by simp
    then show ?thesis by blast
  next
    case False
    with Cons.prems have "find_version q vs = Inr d" by simp
    from Cons.IH[OF this] obtain pre post
      where "vs = pre @ d # post" "Version d = q" "q \<notin> Version ` set pre" by blast
    with False have "v # vs = (v # pre) @ d # post \<and> Version d = q \<and> q \<notin> Version ` set (v # pre)"
      by auto
    then show ?thesis by blast
  qed
qed

lemma find_version_absent:
  "q \<notin> Version ` set vs \<Longrightarrow> find_version q vs = Inl (NotFoundError q)"
  by (induction vs) auto

lemma sort_Slice_set: "set (sort_Slice lt xs) = set xs"
  using sort_Slice_mset[of lt xs] by (metis set_mset_mset)

text \<open>
  C4 (as amended). The resolver has no special handling of the tokens "latest" and "lts":
  every token is taken as an exact version string, prefixed with "v" when it lacks one.
  On a fetched (sorted) index it returns the first descriptor whose version string equals
  the prefixed token, and fails with the not-found error exactly when no descriptor has
  that version string; "latest" and "lts" are looked up as "vlatest" and "vlts".
\<close>

theorem C4_resolve_exact_only:
  assumes "FetchAvailableVersions resp = Inr versions"
  shows "(case FetchVersionDetails token resp of
            Inl e \<Rightarrow> e = NotFoundError (standardize token)
                      \<and> standardize token \<notin> Version ` set versions
          | Inr d \<Rightarrow> \<exists>pre post. versions = pre @ d # post
                      \<and> Version d = standardize token
                      \<and> standardize token \<notin> Version ` set pre)
         \<and> standardize ''latest'' = ''vlatest'' \<and> standardize ''lts'' = ''vlts''"
proof -
  have "FetchVersionDetails token resp = find_version (standardize token) versions"
    using assms by (simp add: FetchVersionDetails_def)
  moreover have "standardize ''latest'' = ''vlatest''" "standardize ''lts'' = ''vlts''"
    by (simp_all add: standardize_def HasPrefix_def)
  ultimately show ?thesis
    using find_version_Inl[of "standardize token" versions]
          find_version_Inr[of "standardize token" versions]
    by (cases "find_version (standardize token) versions") simp_all
qed

text \<open>
  C4 as stated fails: on an index holding v20.1.0 and the LTS release v18.17.0, the
  tokens "latest" and "lts" both end in the not-found error.
\<close>

theorem C4_latest_lts_counterexample:
  "FetchVersionDetails ''latest'' (Decoded index_example) = Inl (NotFoundError ''vlatest'')
   \<and> FetchVersionDetails ''lts'' (Decoded index_example) = Inl (NotFoundError ''vlts'')"
proof -
  have "''vlatest'' \<notin> Version ` set (sort_Slice version_less index_example)"
       "''vlts'' \<notin> Version ` set (sort_Slice version_less index_example)"
    by (simp_all add: sort_Slice_set index_example_def)
  then show ?thesis
    by (simp add: FetchVersionDetails_def FetchAvailableVersions_def standardize_def
        HasPrefix_def find_version_absent)
qed

text \<open>The amended statement at a one-entry index and the token "20.1.0".\<close>

theorem C4_resolve_exact_only_witness:
  "FetchAvailableVersions (Decoded [hd index_example]) = Inr [hd index_example]
   \<and> FetchVersionDetails ''20.1.0'' (Decoded [hd index_example]) = Inr (hd index_example)"
proof -
  have h: "FetchAvailableVersions (Decoded [hd index_example]) = Inr [hd index_example]"
    by (simp add: FetchAvailableVersions_def sort_Slice_def)
  have s: "standardize ''20.1.0'' = ''v20.1.0''"
    by (simp add: standardize_def HasPrefix_def)
  show ?thesis
    using h C4_resolve_exact_only[OF h, of "''20.1.0''"] s
    by (cases "FetchVersionDetails ''20.1.0'' (Decoded [hd index_example])")
       (auto simp: index_example_def Cons_eq_append_conv)
qed

end
